theory Spec2Isabelle
  imports Complex_Main "HOL-Library.Word"
begin

section \<open>Python values\<close>

text \<open>
  The module \<^verbatim>\<open>python/datafusion/__init__.py\<close> defines two functions,
  \<^verbatim>\<open>column(value)\<close> and \<^verbatim>\<open>literal(value)\<close>. Both take an arbitrary Python object.
  A class is identified by its qualified name; every value carries the method resolution
  order (MRO) of its class, most derived class first, which is what \<^verbatim>\<open>isinstance\<close>
  inspects.
\<close>

type_synonym class_name = string

type_synonym addr = nat

datatype type_tag = tag_null | tag_bool | tag_int64 | tag_float64 | tag_utf8

text \<open>
  A Python \<^verbatim>\<open>float\<close> is a C double; no arithmetic is ever done on it here, so it is
  kept as its IEEE-754 binary64 bit pattern. \<open>PyTyped mro t p\<close> is an object that
  exposes a type tag \<open>t\<close> and a payload \<open>p\<close> (what a typed scalar can do) and whose
  class has the MRO \<open>mro\<close>; \<open>PyOther mro\<close> is any other object. These values are
  immutable and compared by their content. An expression object is referred to by the
  address at which the extension module allocated it, \<open>PyExpression a\<close>, so that two
  objects of equal content can be told apart.
\<close>

datatype pyval =
    PyNone
  | PyBool bool
  | PyInt int
  | PyFloat "64 word"
  | PyStr string
  | PyTyped "class_name list" type_tag pyval
  | PyOther "class_name list"
  | PyExpression addr

definition pa_Scalar :: class_name where
  "pa_Scalar = ''pyarrow.lib.Scalar''"

fun mro_of :: "pyval \<Rightarrow> class_name list" where
  "mro_of PyNone = [''NoneType'', ''object'']"
| "mro_of (PyBool b) = [''bool'', ''int'', ''object'']"
| "mro_of (PyInt i) = [''int'', ''object'']"
| "mro_of (PyFloat f) = [''float'', ''object'']"
| "mro_of (PyStr s) = [''str'', ''object'']"
| "mro_of (PyTyped mro t p) = mro"
| "mro_of (PyOther mro) = mro"
| "mro_of (PyExpression a) = [''datafusion._internal.Expression'', ''object'']"

text \<open>\<^verbatim>\<open>isinstance(obj, cls)\<close>: \<open>cls\<close> is the class of \<open>obj\<close> or one of its bases.\<close>

definition isinstance :: "pyval \<Rightarrow> class_name \<Rightarrow> bool" where
  "isinstance obj cls = (cls \<in> set (mro_of obj))"

section \<open>The external entry points\<close>

text \<open>
  The module calls three callables it does not define: \<^verbatim>\<open>pa.scalar\<close> (pyarrow) and the
  static methods \<^verbatim>\<open>Expression.column\<close> and \<^verbatim>\<open>Expression.literal\<close> of the compiled
  extension \<^verbatim>\<open>._internal\<close>. Each is a parameter: a function from its argument and the
  state of the world \<open>'w\<close> to either a raised exception \<open>'e\<close> (\<open>Inl\<close>) or a returned
  value (\<open>Inr\<close>), and the new state of the world.
\<close>

type_synonym ('e, 'w) entry_point = "pyval \<Rightarrow> 'w \<Rightarrow> ('e + pyval) \<times> 'w"

record ('e, 'w) engine =
  pa_scalar :: "('e, 'w) entry_point"
  Expression_column :: "('e, 'w) entry_point"
  Expression_literal :: "('e, 'w) entry_point"

section \<open>The module's functions\<close>

text \<open>
  \<^verbatim>\<open>
  def column(value):
      return Expression.column(value)
  \<close>
\<close>

definition column :: "('e, 'w) engine \<Rightarrow> pyval \<Rightarrow> 'w \<Rightarrow> ('e + pyval) \<times> 'w" where
  "column E value w = Expression_column E value w"

text \<open>
  \<^verbatim>\<open>
  def literal(value):
      if not isinstance(value, pa.Scalar):
          value = pa.scalar(value)
      return Expression.literal(value)
  \<close>
  There is no \<^verbatim>\<open>try\<close>: an exception raised by \<^verbatim>\<open>pa.scalar\<close> leaves the function at once.
\<close>

definition literal :: "('e, 'w) engine \<Rightarrow> pyval \<Rightarrow> 'w \<Rightarrow> ('e + pyval) \<times> 'w" where
  "literal E value w =
     (if \<not> isinstance value pa_Scalar
      then (case pa_scalar E value w of
              (Inl e, w') \<Rightarrow> (Inl e, w')
            | (Inr value', w') \<Rightarrow> Expression_literal E value' w')
      else Expression_literal E value w)"

section \<open>The entry points as the specification describes them\<close>

datatype error = UnsupportedValueType | EngineError string

datatype leaf_tag = Column_tag | Literal_tag

datatype expression_leaf = Expression_Leaf leaf_tag pyval

type_synonym leaf_store = "expression_leaf list"

text \<open>
  Modelled from the spec: the typed scalars that \<^verbatim>\<open>pa.scalar\<close> builds (pyarrow, not in
  the module). Section 3: a Typed Scalar is a pair of a type tag and a payload. pyarrow
  gives every scalar type its own class, each derived from \<^verbatim>\<open>pa.Scalar\<close>.
\<close>

fun scalar_class :: "type_tag \<Rightarrow> class_name list" where
  "scalar_class tag_null = [''pyarrow.lib.NullScalar'', pa_Scalar, ''object'']"
| "scalar_class tag_bool = [''pyarrow.lib.BooleanScalar'', pa_Scalar, ''object'']"
| "scalar_class tag_int64 = [''pyarrow.lib.Int64Scalar'', pa_Scalar, ''object'']"
| "scalar_class tag_float64 = [''pyarrow.lib.DoubleScalar'', pa_Scalar, ''object'']"
| "scalar_class tag_utf8 = [''pyarrow.lib.StringScalar'', pa_Scalar, ''object'']"

definition typed_scalar :: "type_tag \<Rightarrow> pyval \<Rightarrow> pyval" where
  "typed_scalar t p = PyTyped (scalar_class t) t p"

text \<open>
  Modelled from the spec: the body of \<^verbatim>\<open>pa.scalar\<close> (pyarrow, not in the module).
  Section 4.1 step 2 and section 9: a match over the shapes of the input, a machine
  integer to an integer scalar of matching width (\<open>int64\<close> in section 8), a floating
  value to \<open>float64\<close>, text to \<open>utf8\<close>, a boolean to a boolean scalar, the absent value
  to a null scalar, and a default arm raising \<open>UnsupportedValueType\<close>. A Python \<^verbatim>\<open>int\<close>
  is unbounded; one outside the signed 64-bit range is not a machine integer, has no
  integer scalar of matching width, and takes the default arm.
\<close>

fun coerce :: "pyval \<Rightarrow> error + pyval" where
  "coerce PyNone = Inr (typed_scalar tag_null PyNone)"
| "coerce (PyBool b) = Inr (typed_scalar tag_bool (PyBool b))"
| "coerce (PyInt i) =
     (if - (2 ^ 63) \<le> i \<and> i < 2 ^ 63 then Inr (typed_scalar tag_int64 (PyInt i))
      else Inl UnsupportedValueType)"
| "coerce (PyFloat f) = Inr (typed_scalar tag_float64 (PyFloat f))"
| "coerce (PyStr s) = Inr (typed_scalar tag_utf8 (PyStr s))"
| "coerce (PyTyped mro t p) = Inl UnsupportedValueType"
| "coerce (PyOther mro) = Inl UnsupportedValueType"
| "coerce (PyExpression a) = Inl UnsupportedValueType"

definition spec_scalar :: "(error, leaf_store) entry_point" where
  "spec_scalar value st = (coerce value, st)"

text \<open>
  Modelled from the spec: the bodies of \<^verbatim>\<open>Expression.column\<close> and
  \<^verbatim>\<open>Expression.literal\<close> (the compiled extension \<^verbatim>\<open>._internal\<close>, not among the
  sources). Section 3 and section 4.1: each wraps its argument in a newly allocated,
  immutable Expression Leaf tagged "column" or "literal", which is handed to the caller.
  The store holds the leaves allocated so far; the address of a leaf is its index.
\<close>

definition alloc_leaf :: "leaf_tag \<Rightarrow> (error, leaf_store) entry_point" where
  "alloc_leaf tag value st = (Inr (PyExpression (length st)), st @ [Expression_Leaf tag value])"

definition spec_engine :: "(error, leaf_store) engine" where
  "spec_engine =
     \<lparr> pa_scalar = spec_scalar,
       Expression_column = alloc_leaf Column_tag,
       Expression_literal = alloc_leaf Literal_tag \<rparr>"

text \<open>The leaf behind a returned handle, if the handle is one of the store's.\<close>

definition leaf_at :: "leaf_store \<Rightarrow> pyval \<Rightarrow> expression_leaf option" where
  "leaf_at st r = (case r of PyExpression a \<Rightarrow> (if a < length st then Some (st ! a) else None)
                   | _ \<Rightarrow> None)"

section \<open>Vocabulary of the properties\<close>

text \<open>
  The value bound to \<^verbatim>\<open>value\<close> when the last line of \<^verbatim>\<open>literal\<close> is reached, that is,
  the argument with which \<^verbatim>\<open>Expression.literal\<close> is invoked (the \<^verbatim>\<open>if\<close> statement alone).
\<close>

definition literal_value :: "('e, 'w) engine \<Rightarrow> pyval \<Rightarrow> 'w \<Rightarrow> ('e + pyval) \<times> 'w" where
  "literal_value E value w =
     (if \<not> isinstance value pa_Scalar then pa_scalar E value w else (Inr value, w))"

text \<open>
  What the specification assumes of the entry points: the coercion step raises one kind
  of error only, it returns typed scalars, and the wrapping of a typed scalar succeeds.
\<close>

definition coercion_raises_only :: "'e \<Rightarrow> ('e, 'w) engine \<Rightarrow> bool" where
  "coercion_raises_only x E = (\<forall>v w e w'. pa_scalar E v w = (Inl e, w') \<longrightarrow> e = x)"

definition coercion_returns_scalars :: "('e, 'w) engine \<Rightarrow> bool" where
  "coercion_returns_scalars E =
     (\<forall>v w s w'. pa_scalar E v w = (Inr s, w') \<longrightarrow> isinstance s pa_Scalar)"

definition wrapping_succeeds :: "('e, 'w) engine \<Rightarrow> bool" where
  "wrapping_succeeds E =
     (\<forall>s w. isinstance s pa_Scalar \<longrightarrow> (\<exists>r w'. Expression_literal E s w = (Inr r, w')))"

definition agree_on_scalars :: "('e, 'w) entry_point \<Rightarrow> ('e, 'w) entry_point \<Rightarrow> bool" where
  "agree_on_scalars f g = (\<forall>s w. isinstance s pa_Scalar \<longrightarrow> f s w = g s w)"

text \<open>
  A capability check, in the words of the specification: a discriminant on what the value
  can do (expose a type tag and a payload), whatever its class.
\<close>

definition typed_scalar_capability :: "pyval \<Rightarrow> bool" where
  "typed_scalar_capability v = (case v of PyTyped mro t p \<Rightarrow> True | _ \<Rightarrow> False)"

text \<open>
  Two handles are structurally equal in a store when both denote a leaf there and the two
  leaves have the same tag and content; they are identical when they are the same handle.
\<close>

definition structurally_equal :: "leaf_store \<Rightarrow> pyval \<Rightarrow> pyval \<Rightarrow> bool" where
  "structurally_equal st r1 r2 = (leaf_at st r1 \<noteq> None \<and> leaf_at st r1 = leaf_at st r2)"

section \<open>Example values\<close>

text \<open>
  An object of a class \<^verbatim>\<open>Duck\<close> that does not derive from \<^verbatim>\<open>pa.Scalar\<close> and exposes
  the type tag \<open>int64\<close> and the payload 3.
\<close>

definition duck :: pyval where
  "duck = PyTyped [''Duck'', ''object''] tag_int64 (PyInt 3)"

text \<open>An object of an arbitrary class that the coercion step does not know.\<close>

definition foo_object :: pyval where
  "foo_object = PyOther [''Foo'', ''object'']"

text \<open>
  An \<^verbatim>\<open>Expression.literal\<close> that accepts typed scalars as the specification's does and
  raises on anything else.
\<close>

definition strict_literal :: "(error, leaf_store) entry_point" where
  "strict_literal x st =
     (if isinstance x pa_Scalar then alloc_leaf Literal_tag x st
      else (Inl (EngineError ''raw value''), st))"

text \<open>
  The number a binary64 bit pattern denotes, for a normal number (biased exponent
  1 to 2046): sign bit 63, exponent bits 62 to 52, fraction bits 51 to 0. Zeros,
  subnormals, infinities and NaNs are not decoded.
\<close>

definition double_value :: "64 word \<Rightarrow> rat option" where
  "double_value x =
     (let sign = (if bit x 63 then - 1 else 1);
          e = unat (take_bit 11 (drop_bit 52 x));
          frac = of_nat (unat (take_bit 52 x)) / 2 ^ 52
      in if e = 0 \<or> e = 2047 then None
         else if 1023 \<le> e then Some (sign * (1 + frac) * 2 ^ (e - 1023))
         else Some (sign * (1 + frac) / 2 ^ (1023 - e)))"

section \<open>Auxiliary facts\<close>

lemma isinstance_typed_scalar: "isinstance (typed_scalar t p) pa_Scalar"
  by (cases t) (simp_all add: isinstance_def typed_scalar_def)

lemma coerce_returns_scalar: "coerce v = Inr s \<Longrightarrow> isinstance s pa_Scalar"
  by (cases v) (auto simp: isinstance_typed_scalar split: if_splits)

lemma coerce_raises_unsupported: "coerce v = Inl e \<Longrightarrow> e = UnsupportedValueType"
  by (cases v) (auto split: if_splits)

lemma spec_engine_simps:
  "pa_scalar spec_engine = spec_scalar"
  "Expression_column spec_engine = alloc_leaf Column_tag"
  "Expression_literal spec_engine = alloc_leaf Literal_tag"
  by (simp_all add: spec_engine_def)

lemma spec_coercion_raises_only: "coercion_raises_only UnsupportedValueType spec_engine"
  by (auto simp: coercion_raises_only_def spec_engine_simps spec_scalar_def
      dest: coerce_raises_unsupported)

lemma spec_coercion_returns_scalars: "coercion_returns_scalars spec_engine"
  by (auto simp: coercion_returns_scalars_def spec_engine_simps spec_scalar_def
      dest: coerce_returns_scalar)

lemma spec_wrapping_succeeds: "wrapping_succeeds spec_engine"
  by (simp add: wrapping_succeeds_def spec_engine_simps alloc_leaf_def)

lemma not_isinstance_builtin:
  "\<not> isinstance PyNone pa_Scalar" "\<not> isinstance (PyBool b) pa_Scalar"
  "\<not> isinstance (PyInt i) pa_Scalar" "\<not> isinstance (PyFloat x) pa_Scalar"
  "\<not> isinstance (PyStr s) pa_Scalar" "\<not> isinstance (PyExpression a) pa_Scalar"
  by (simp_all add: isinstance_def pa_Scalar_def)

lemma literal_failure_cases:
  assumes "literal E v w = (Inl e, w')"
  shows "(\<not> isinstance v pa_Scalar \<and> pa_scalar E v w = (Inl e, w'))
         \<or> (\<exists>s w1. isinstance s pa_Scalar \<and> Expression_literal E s w1 = (Inl e, w'))
         \<or> (\<exists>s w1 w0. pa_scalar E v w0 = (Inr s, w1) \<and> \<not> isinstance s pa_Scalar)"
proof (cases "isinstance v pa_Scalar")
  case True
  with assms have "Expression_literal E v w = (Inl e, w')"
    by (simp add: literal_def)
  with True show ?thesis by blast
next
  case False
  obtain r w1 where c: "pa_scalar E v w = (r, w1)"
    by (cases "pa_scalar E v w") blast
  show ?thesis
  proof (cases r)
    case (Inl e1)
    with assms False c have "e1 = e" "w1 = w'"
      by (simp_all add: literal_def)
    with False c Inl show ?thesis by blast
  next
    case (Inr s)
    with assms False c have "Expression_literal E s w1 = (Inl e, w')"
      by (simp add: literal_def)
    with c Inr show ?thesis by blast
  qed
qed

lemma double_3_5_fields:
  "\<not> bit (0x400C000000000000 :: 64 word) 63"
  "unat (take_bit 11 (drop_bit 52 (0x400C000000000000 :: 64 word))) = 1024"
  "unat (take_bit 52 (0x400C000000000000 :: 64 word)) = 0xC000000000000"
  by simp_all

lemma double_3_5: "double_value 0x400C000000000000 = Some (7 / 2)"
  unfolding double_value_def Let_def double_3_5_fields by simp

lemma spec_column_eq:
  "column spec_engine v st
     = (Inr (PyExpression (length st)), st @ [Expression_Leaf Column_tag v])"
  by (simp add: column_def spec_engine_simps alloc_leaf_def)

lemma spec_literal_eq:
  "literal spec_engine v st =
     (if isinstance v pa_Scalar
      then (Inr (PyExpression (length st)), st @ [Expression_Leaf Literal_tag v])
      else (case coerce v of
              Inl e \<Rightarrow> (Inl e, st)
            | Inr s \<Rightarrow> (Inr (PyExpression (length st)), st @ [Expression_Leaf Literal_tag s])))"
  by (simp add: literal_def spec_engine_simps spec_scalar_def alloc_leaf_def split: sum.splits)

text \<open>A call that allocates one leaf holding \<open>x\<close>, or raises and leaves the store alone.\<close>

lemma spec_call_shape:
  assumes "f = column spec_engine \<or> f = literal spec_engine"
  shows "\<exists>r. \<forall>st. f v st = (case r of
                  Inl e \<Rightarrow> (Inl e, st)
                | Inr l \<Rightarrow> (Inr (PyExpression (length st)), st @ [l]))"
proof -
  from assms consider "f = column spec_engine" | "f = literal spec_engine" by blast
  then show ?thesis
  proof cases
    case 1
    then have "\<forall>st. f v st = (case Inr (Expression_Leaf Column_tag v) of
                  Inl (e :: error) \<Rightarrow> (Inl e, st)
                | Inr l \<Rightarrow> (Inr (PyExpression (length st)), st @ [l]))"
      by (simp add: spec_column_eq)
    then show ?thesis by blast
  next
    case 2
    show ?thesis
    proof (cases "isinstance v pa_Scalar")
      case True
      with 2 have "\<forall>st. f v st = (case Inr (Expression_Leaf Literal_tag v) of
                  Inl (e :: error) \<Rightarrow> (Inl e, st)
                | Inr l \<Rightarrow> (Inr (PyExpression (length st)), st @ [l]))"
        by (simp add: spec_literal_eq)
      then show ?thesis by blast
    next
      case False
      show ?thesis
      proof (cases "coerce v")
        case (Inl e)
        with 2 False have "\<forall>st. f v st = (case Inl e of
                  Inl (e :: error) \<Rightarrow> (Inl e, st)
                | Inr l \<Rightarrow> (Inr (PyExpression (length st)), st @ [l]))"
          by (simp add: spec_literal_eq)
        then show ?thesis by blast
      next
        case (Inr s)
        with 2 False have "\<forall>st. f v st = (case Inr (Expression_Leaf Literal_tag s) of
                  Inl (e :: error) \<Rightarrow> (Inl e, st)
                | Inr l \<Rightarrow> (Inr (PyExpression (length st)), st @ [l]))"
          by (simp add: spec_literal_eq)
        then show ?thesis by blast
      qed
    qed
  qed
qed

section \<open>Properties of \<^verbatim>\<open>literal\<close>\<close>

text \<open>
  C1: for every value \<open>v\<close> that is not an instance of \<^verbatim>\<open>pa.Scalar\<close>,
  \<^verbatim>\<open>literal(v)\<close> first applies the coercion step \<^verbatim>\<open>pa.scalar\<close> to \<open>v\<close> and then passes
  the scalar it returned, in the world it left, to \<^verbatim>\<open>Expression.literal\<close>: the result is
  \<^verbatim>\<open>Expression.literal(pa.scalar(v))\<close>, and an exception of the coercion step is the
  outcome. This holds whatever the entry points are. With the entry points of the
  specification the result is a new leaf tagged "literal" that wraps the coerced scalar.
\<close>

theorem literal_coerces_then_wraps:
  "\<not> isinstance v pa_Scalar \<Longrightarrow>
     literal E v w =
       (case pa_scalar E v w of
          (Inl e, w') \<Rightarrow> (Inl e, w')
        | (Inr s, w') \<Rightarrow> Expression_literal E s w')
   \<and> literal spec_engine v st =
       (case coerce v of
          Inl e \<Rightarrow> (Inl e, st)
        | Inr s \<Rightarrow> (Inr (PyExpression (length st)), st @ [Expression_Leaf Literal_tag s]))"
  by (simp add: literal_def spec_engine_simps spec_scalar_def alloc_leaf_def split: sum.splits)

theorem literal_coerces_then_wraps_witness:
  "\<not> isinstance (PyInt 3) pa_Scalar
   \<and> literal spec_engine (PyInt 3) []
       = Expression_literal spec_engine (typed_scalar tag_int64 (PyInt 3)) []
   \<and> literal spec_engine (PyInt 3) []
       = (Inr (PyExpression 0), [Expression_Leaf Literal_tag (typed_scalar tag_int64 (PyInt 3))])"
proof -
  have h: "\<not> isinstance (PyInt 3) pa_Scalar"
    by (rule not_isinstance_builtin)
  note t = literal_coerces_then_wraps [OF h, where E = spec_engine and w = "[]" and st = "[]"]
  from t have "literal spec_engine (PyInt 3) []
      = (case pa_scalar spec_engine (PyInt 3) [] of
          (Inl e, w') \<Rightarrow> (Inl e, w')
        | (Inr s, w') \<Rightarrow> Expression_literal spec_engine s w')"
    by (rule conjunct1)
  then have a: "literal spec_engine (PyInt 3) []
      = Expression_literal spec_engine (typed_scalar tag_int64 (PyInt 3)) []"
    by (simp add: spec_engine_simps spec_scalar_def)
  from t have "literal spec_engine (PyInt 3) [] =
       (case coerce (PyInt 3) of
          Inl e \<Rightarrow> (Inl e, [])
        | Inr s \<Rightarrow> (Inr (PyExpression (length ([] :: leaf_store))), [] @ [Expression_Leaf Literal_tag s]))"
    by (rule conjunct2)
  then have b: "literal spec_engine (PyInt 3) []
       = (Inr (PyExpression 0), [Expression_Leaf Literal_tag (typed_scalar tag_int64 (PyInt 3))])"
    by simp
  from h a b show ?thesis by blast
qed

text \<open>
  C2: for every value \<open>s\<close> that is an instance of \<^verbatim>\<open>pa.Scalar\<close>, \<^verbatim>\<open>literal(s)\<close> is
  \<^verbatim>\<open>Expression.literal(s)\<close> on \<open>s\<close> itself. The coercion step is skipped: replacing
  \<^verbatim>\<open>pa.scalar\<close> by any function whatever changes nothing. With the wrapping entry point
  of the specification, the new leaf holds exactly \<open>s\<close>: same class, same type tag, same
  payload, not wrapped a second time.
\<close>

theorem literal_typed_scalar_unchanged:
  "isinstance s pa_Scalar \<Longrightarrow>
     literal E s w = Expression_literal E s w
   \<and> literal (E\<lparr>pa_scalar := f\<rparr>) s w = literal E s w
   \<and> literal spec_engine s st
       = (Inr (PyExpression (length st)), st @ [Expression_Leaf Literal_tag s])"
  by (simp add: literal_def spec_engine_simps alloc_leaf_def)

theorem literal_typed_scalar_unchanged_witness:
  "isinstance (typed_scalar tag_utf8 (PyStr ''abc'')) pa_Scalar
   \<and> literal (spec_engine\<lparr>pa_scalar := (\<lambda>v st. (Inl (EngineError ''coercion invoked''), st))\<rparr>)
        (typed_scalar tag_utf8 (PyStr ''abc'')) []
       = literal spec_engine (typed_scalar tag_utf8 (PyStr ''abc'')) []
   \<and> literal spec_engine (typed_scalar tag_utf8 (PyStr ''abc'')) []
       = (Inr (PyExpression 0),
          [Expression_Leaf Literal_tag (typed_scalar tag_utf8 (PyStr ''abc''))])"
proof -
  have h: "isinstance (typed_scalar tag_utf8 (PyStr ''abc'')) pa_Scalar"
    by (rule isinstance_typed_scalar)
  note t = literal_typed_scalar_unchanged
    [OF h, where E = spec_engine and w = "[]" and st = "[]"
       and f = "\<lambda>v st. (Inl (EngineError ''coercion invoked''), st)"]
  from t have a: "literal (spec_engine\<lparr>pa_scalar := (\<lambda>v st. (Inl (EngineError ''coercion invoked''), st))\<rparr>)
        (typed_scalar tag_utf8 (PyStr ''abc'')) []
       = literal spec_engine (typed_scalar tag_utf8 (PyStr ''abc'')) []"
    by blast
  from t have "literal spec_engine (typed_scalar tag_utf8 (PyStr ''abc'')) []
       = (Inr (PyExpression (length ([] :: leaf_store))),
          [] @ [Expression_Leaf Literal_tag (typed_scalar tag_utf8 (PyStr ''abc''))])"
    by blast
  then have b: "literal spec_engine (typed_scalar tag_utf8 (PyStr ''abc'')) []
       = (Inr (PyExpression 0),
          [Expression_Leaf Literal_tag (typed_scalar tag_utf8 (PyStr ''abc''))])"
    by simp
  from h a b show ?thesis by blast
qed

text \<open>
  C3: let the entry points be as the specification assumes: the coercion step raises
  only \<open>UnsupportedValueType\<close>, it returns typed scalars, and wrapping a typed scalar
  succeeds. The coercion step is reached only for a value that is not a typed scalar.
  Then \<^verbatim>\<open>literal(v)\<close> fails exactly when the coercion step is reached and fails on \<open>v\<close>;
  and when it fails, the exception is \<open>UnsupportedValueType\<close>, the very outcome of the
  coercion step (same exception, same world): nothing is caught, replaced or added.
\<close>

theorem literal_fails_only_as_coercion_fails:
  assumes "coercion_raises_only UnsupportedValueType E"
      and "coercion_returns_scalars E"
      and "wrapping_succeeds E"
  shows "((\<exists>e w'. literal E v w = (Inl e, w'))
            \<longleftrightarrow> (\<not> isinstance v pa_Scalar \<and> (\<exists>e w'. pa_scalar E v w = (Inl e, w'))))
         \<and> (\<forall>e w'. literal E v w = (Inl e, w')
              \<longrightarrow> e = UnsupportedValueType \<and> pa_scalar E v w = (Inl e, w'))"
proof -
  have fails: "\<not> isinstance v pa_Scalar \<and> pa_scalar E v w = (Inl e, w')"
    if "literal E v w = (Inl e, w')" for e w'
  proof -
    from literal_failure_cases [OF that] consider
        "\<not> isinstance v pa_Scalar \<and> pa_scalar E v w = (Inl e, w')"
      | s w1 where "isinstance s pa_Scalar" "Expression_literal E s w1 = (Inl e, w')"
      | s w1 w0 where "pa_scalar E v w0 = (Inr s, w1)" "\<not> isinstance s pa_Scalar"
      by blast
    then show ?thesis
    proof cases
      case 1
      then show ?thesis .
    next
      case 2
      from assms(3) 2(1) obtain r w2 where "Expression_literal E s w1 = (Inr r, w2)"
        unfolding wrapping_succeeds_def by blast
      with 2(2) show ?thesis by simp
    next
      case 3
      from assms(2) 3(1) have "isinstance s pa_Scalar"
        unfolding coercion_returns_scalars_def by blast
      with 3(2) show ?thesis by simp
    qed
  qed
  have propagates: "literal E v w = (Inl e, w')"
    if "\<not> isinstance v pa_Scalar" "pa_scalar E v w = (Inl e, w')" for e w'
    using that by (simp add: literal_def)
  have kind: "e = UnsupportedValueType" if "pa_scalar E v w = (Inl e, w')" for e w'
    using assms(1) that by (auto simp: coercion_raises_only_def)
  from fails propagates kind show ?thesis
    by blast
qed

theorem literal_fails_only_as_coercion_fails_witness:
  "coercion_raises_only UnsupportedValueType spec_engine
   \<and> coercion_returns_scalars spec_engine
   \<and> wrapping_succeeds spec_engine
   \<and> literal spec_engine foo_object [] = (Inl UnsupportedValueType, [])
   \<and> \<not> (\<exists>e w'. literal spec_engine (PyInt 3) [] = (Inl e, w'))"
proof -
  note t = literal_fails_only_as_coercion_fails
    [OF spec_coercion_raises_only spec_coercion_returns_scalars spec_wrapping_succeeds]
  have c: "pa_scalar spec_engine foo_object [] = (Inl UnsupportedValueType, [])"
    by (simp add: spec_engine_simps spec_scalar_def foo_object_def)
  have n: "\<not> isinstance foo_object pa_Scalar"
    by (simp add: isinstance_def foo_object_def pa_Scalar_def)
  from t [of foo_object "[]"] c n obtain e w'
    where l: "literal spec_engine foo_object [] = (Inl e, w')"
    by blast
  with t [of foo_object "[]"]
  have "e = UnsupportedValueType \<and> pa_scalar spec_engine foo_object [] = (Inl e, w')"
    by blast
  with c l have a: "literal spec_engine foo_object [] = (Inl UnsupportedValueType, [])"
    by simp
  have "\<not> (\<exists>e w'. pa_scalar spec_engine (PyInt 3) [] = (Inl e, w'))"
    by (simp add: spec_engine_simps spec_scalar_def)
  with t [of "PyInt 3" "[]"]
  have b: "\<not> (\<exists>e w'. literal spec_engine (PyInt 3) [] = (Inl e, w'))"
    by blast
  from a b spec_coercion_raises_only spec_coercion_returns_scalars spec_wrapping_succeeds
  show ?thesis by blast
qed

text \<open>
  C5: with the entry points of the specification, \<^verbatim>\<open>literal(3)\<close> is a new leaf tagged
  "literal" whose scalar has type tag \<open>int64\<close> and payload 3; \<^verbatim>\<open>literal(3.5)\<close> one whose
  scalar has type tag \<open>float64\<close> and the payload 3.5 (the double \<open>0x400C000000000000\<close>,
  which denotes 7/2); \<^verbatim>\<open>literal("abc")\<close> one whose scalar has type tag \<open>utf8\<close> and payload
  "abc"; and \<^verbatim>\<open>column("age")\<close> is a new leaf tagged "column" that holds the name "age".
\<close>

theorem canonical_examples:
  "literal spec_engine (PyInt 3) st
     = (Inr (PyExpression (length st)),
        st @ [Expression_Leaf Literal_tag (PyTyped (scalar_class tag_int64) tag_int64 (PyInt 3))])
   \<and> literal spec_engine (PyFloat 0x400C000000000000) st
     = (Inr (PyExpression (length st)),
        st @ [Expression_Leaf Literal_tag
                (PyTyped (scalar_class tag_float64) tag_float64 (PyFloat 0x400C000000000000))])
   \<and> literal spec_engine (PyStr ''abc'') st
     = (Inr (PyExpression (length st)),
        st @ [Expression_Leaf Literal_tag (PyTyped (scalar_class tag_utf8) tag_utf8 (PyStr ''abc''))])
   \<and> column spec_engine (PyStr ''age'') st
     = (Inr (PyExpression (length st)), st @ [Expression_Leaf Column_tag (PyStr ''age'')])
   \<and> double_value 0x400C000000000000 = Some (7 / 2)"
  by (simp add: double_3_5 literal_def column_def not_isinstance_builtin spec_engine_simps spec_scalar_def
      alloc_leaf_def typed_scalar_def)

text \<open>
  C6: with the entry points of the specification, \<^verbatim>\<open>literal(None)\<close> does not raise: it
  returns a new leaf tagged "literal" that wraps a scalar of type tag \<open>null\<close>.
\<close>

theorem literal_None_is_null_scalar:
  "literal spec_engine PyNone st
     = (Inr (PyExpression (length st)),
        st @ [Expression_Leaf Literal_tag (PyTyped (scalar_class tag_null) tag_null PyNone)])"
  by (simp add: literal_def not_isinstance_builtin spec_engine_simps spec_scalar_def
      alloc_leaf_def typed_scalar_def)

text \<open>
  C7 as stated does not hold. The object \<open>duck\<close> has the capability of a typed scalar (it
  exposes a type tag and a payload) but its class does not derive from \<^verbatim>\<open>pa.Scalar\<close>:
  \<^verbatim>\<open>isinstance\<close> is false, the object is sent to the coercion step, and \<^verbatim>\<open>literal\<close> does
  not return what \<^verbatim>\<open>Expression.literal\<close> returns on the object itself.
\<close>

theorem duck_misses_the_fast_path:
  "typed_scalar_capability duck
   \<and> literal spec_engine duck [] \<noteq> Expression_literal spec_engine duck []
   \<and> literal spec_engine duck [] = (Inl UnsupportedValueType, [])"
  by (simp add: typed_scalar_capability_def duck_def literal_def isinstance_def pa_Scalar_def
      spec_engine_simps spec_scalar_def alloc_leaf_def)

text \<open>
  C7, amended: \<^verbatim>\<open>literal\<close> recognises a typed scalar by a run-time class test,
  \<^verbatim>\<open>isinstance(value, pa.Scalar)\<close>. A value whose class is \<^verbatim>\<open>pa.Scalar\<close> or derives from
  it takes the use-unchanged fast path, whatever the name of its concrete class; every
  other value is sent to the coercion step, whatever it can do.
\<close>

theorem literal_fast_path_is_by_class:
  "(pa_Scalar \<in> set (mro_of v) \<longrightarrow> literal E v w = Expression_literal E v w)
   \<and> (pa_Scalar \<notin> set (mro_of v) \<longrightarrow>
        literal E v w =
          (case pa_scalar E v w of
             (Inl e, w') \<Rightarrow> (Inl e, w')
           | (Inr s, w') \<Rightarrow> Expression_literal E s w'))"
  by (simp add: literal_def isinstance_def)

theorem literal_fast_path_is_by_class_witness:
  "pa_Scalar \<in> set (mro_of (typed_scalar tag_int64 (PyInt 3)))
   \<and> literal spec_engine (typed_scalar tag_int64 (PyInt 3)) []
       = Expression_literal spec_engine (typed_scalar tag_int64 (PyInt 3)) []
   \<and> pa_Scalar \<notin> set (mro_of duck)
   \<and> literal spec_engine duck [] = (Inl UnsupportedValueType, [])"
proof -
  have h1: "pa_Scalar \<in> set (mro_of (typed_scalar tag_int64 (PyInt 3)))"
    by (simp add: typed_scalar_def)
  have h2: "pa_Scalar \<notin> set (mro_of duck)"
    by (simp add: duck_def pa_Scalar_def)
  from h1 literal_fast_path_is_by_class [of "typed_scalar tag_int64 (PyInt 3)" spec_engine "[]"]
  have a: "literal spec_engine (typed_scalar tag_int64 (PyInt 3)) []
       = Expression_literal spec_engine (typed_scalar tag_int64 (PyInt 3)) []"
    by blast
  from h2 literal_fast_path_is_by_class [of duck spec_engine "[]"]
  have "literal spec_engine duck [] =
          (case pa_scalar spec_engine duck [] of
             (Inl e, w') \<Rightarrow> (Inl e, w')
           | (Inr s, w') \<Rightarrow> Expression_literal spec_engine s w')"
    by blast
  then have b: "literal spec_engine duck [] = (Inl UnsupportedValueType, [])"
    by (simp add: spec_engine_simps spec_scalar_def duck_def)
  from h1 a h2 b show ?thesis by blast
qed

text \<open>
  C8: let the coercion step return instances of \<^verbatim>\<open>pa.Scalar\<close> only, as \<^verbatim>\<open>pa.scalar\<close> does.
  Then \<^verbatim>\<open>literal\<close> is \<^verbatim>\<open>Expression.literal\<close> applied to the value that the \<^verbatim>\<open>if\<close> statement
  leaves in \<^verbatim>\<open>value\<close>; whenever that statement completes, this value is a typed scalar;
  and what \<^verbatim>\<open>Expression.literal\<close> would do with anything else has no influence at all:
  any entry point that agrees with it on typed scalars gives the same outcome.
\<close>

theorem literal_passes_only_typed_scalars:
  assumes "coercion_returns_scalars E"
  shows "literal E v w =
           (case literal_value E v w of
              (Inl e, w') \<Rightarrow> (Inl e, w')
            | (Inr x, w') \<Rightarrow> Expression_literal E x w')
         \<and> (\<forall>x w'. literal_value E v w = (Inr x, w') \<longrightarrow> isinstance x pa_Scalar)
         \<and> (agree_on_scalars f (Expression_literal E) \<longrightarrow>
              literal (E\<lparr>Expression_literal := f\<rparr>) v w = literal E v w)"
proof -
  have a: "literal E v w =
           (case literal_value E v w of
              (Inl e, w') \<Rightarrow> (Inl e, w')
            | (Inr x, w') \<Rightarrow> Expression_literal E x w')"
    by (simp add: literal_def literal_value_def split: prod.splits sum.splits)
  have b: "isinstance x pa_Scalar" if "literal_value E v w = (Inr x, w')" for x w'
  proof (cases "isinstance v pa_Scalar")
    case True
    with that show ?thesis by (simp add: literal_value_def)
  next
    case False
    with that have "pa_scalar E v w = (Inr x, w')"
      by (simp add: literal_value_def)
    with assms show ?thesis
      unfolding coercion_returns_scalars_def by blast
  qed
  have c: "literal (E\<lparr>Expression_literal := f\<rparr>) v w = literal E v w"
    if ag: "agree_on_scalars f (Expression_literal E)"
  proof -
    have v: "literal_value (E\<lparr>Expression_literal := f\<rparr>) v w = literal_value E v w"
      by (simp add: literal_value_def)
    obtain r w' where lv: "literal_value E v w = (r, w')"
      by (cases "literal_value E v w") blast
    show ?thesis
    proof (cases r)
      case (Inl e)
      with lv show ?thesis
        by (simp add: literal_def literal_value_def split: if_splits)
    next
      case (Inr x)
      with lv b have "isinstance x pa_Scalar" by blast
      with ag have "f x w' = Expression_literal E x w'"
        unfolding agree_on_scalars_def by blast
      with lv Inr show ?thesis
        by (simp add: literal_def literal_value_def split: if_splits)
    qed
  qed
  from a b c show ?thesis by blast
qed

theorem literal_passes_only_typed_scalars_witness:
  "coercion_returns_scalars spec_engine
   \<and> agree_on_scalars strict_literal (Expression_literal spec_engine)
   \<and> literal_value spec_engine (PyInt 3) [] = (Inr (typed_scalar tag_int64 (PyInt 3)), [])
   \<and> isinstance (typed_scalar tag_int64 (PyInt 3)) pa_Scalar
   \<and> literal (spec_engine\<lparr>Expression_literal := strict_literal\<rparr>) (PyInt 3) []
       = literal spec_engine (PyInt 3) []"
proof -
  note t = literal_passes_only_typed_scalars
    [OF spec_coercion_returns_scalars, where v = "PyInt 3" and w = "[]" and f = strict_literal]
  have ag: "agree_on_scalars strict_literal (Expression_literal spec_engine)"
    by (simp add: agree_on_scalars_def strict_literal_def spec_engine_simps)
  have lv: "literal_value spec_engine (PyInt 3) [] = (Inr (typed_scalar tag_int64 (PyInt 3)), [])"
    by (simp add: literal_value_def not_isinstance_builtin spec_engine_simps spec_scalar_def)
  from t lv have a: "isinstance (typed_scalar tag_int64 (PyInt 3)) pa_Scalar"
    by blast
  from t ag have b: "literal (spec_engine\<lparr>Expression_literal := strict_literal\<rparr>) (PyInt 3) []
       = literal spec_engine (PyInt 3) []"
    by blast
  from spec_coercion_returns_scalars ag lv a b show ?thesis by blast
qed

section \<open>Purity\<close>

text \<open>
  C9: with the entry points of the specification, let \<open>f\<close> be \<^verbatim>\<open>column\<close> or \<^verbatim>\<open>literal\<close>,
  called on \<open>v\<close> in a store, then again on \<open>v\<close> in the store the first call left, and also
  in any other store. No call changes a leaf that existed: a store only grows by the new
  leaf. Either all three calls raise the same exception and leave their stores as they
  were, or all three return a handle; the handles of the two successive calls are
  different (not identical) and denote leaves of the same tag and content (structurally
  equal), and the leaf made in the other store is the same too: the outcome does not
  depend on the state.
\<close>

theorem column_and_literal_pure:
  assumes "f = column spec_engine \<or> f = literal spec_engine"
      and "f v st = (r1, st1)"
      and "f v st1 = (r2, st2)"
      and "f v st' = (r3, st3)"
  shows "take (length st) st1 = st \<and> take (length st1) st2 = st1
         \<and> ((\<exists>e. r1 = Inl e \<and> r2 = Inl e \<and> r3 = Inl e \<and> st2 = st \<and> st3 = st')
            \<or> (\<exists>h1 h2 h3. r1 = Inr h1 \<and> r2 = Inr h2 \<and> r3 = Inr h3
                  \<and> h1 \<noteq> h2 \<and> structurally_equal st2 h1 h2
                  \<and> leaf_at st3 h3 = leaf_at st1 h1))"
proof -
  from spec_call_shape [OF assms(1), of v] obtain r where
    sh: "\<And>st. f v st = (case r of
                  Inl e \<Rightarrow> (Inl e, st)
                | Inr l \<Rightarrow> (Inr (PyExpression (length st)), st @ [l]))"
    by blast
  show ?thesis
  proof (cases r)
    case (Inl e)
    with sh assms(2-4) have
      "r1 = Inl e" "st1 = st" "r2 = Inl e" "st2 = st" "r3 = Inl e" "st3 = st'"
      by simp_all
    then show ?thesis by simp
  next
    case (Inr l)
    with sh assms(2-4) have
      "r1 = Inr (PyExpression (length st))" "st1 = st @ [l]"
      "r2 = Inr (PyExpression (Suc (length st)))" "st2 = (st @ [l]) @ [l]"
      "r3 = Inr (PyExpression (length st'))" "st3 = st' @ [l]"
      by auto
    then show ?thesis
      by (simp add: structurally_equal_def leaf_at_def nth_append)
  qed
qed

theorem column_and_literal_pure_witness:
  "column spec_engine (PyStr ''x'') []
     = (Inr (PyExpression 0), [Expression_Leaf Column_tag (PyStr ''x'')])
   \<and> column spec_engine (PyStr ''x'') [Expression_Leaf Column_tag (PyStr ''x'')]
     = (Inr (PyExpression 1),
        [Expression_Leaf Column_tag (PyStr ''x''), Expression_Leaf Column_tag (PyStr ''x'')])
   \<and> PyExpression 0 \<noteq> PyExpression 1
   \<and> structurally_equal
        [Expression_Leaf Column_tag (PyStr ''x''), Expression_Leaf Column_tag (PyStr ''x'')]
        (PyExpression 0) (PyExpression 1)"
proof -
  let ?l = "Expression_Leaf Column_tag (PyStr ''x'')"
  have c1: "column spec_engine (PyStr ''x'') [] = (Inr (PyExpression 0), [?l])"
    by (simp add: spec_column_eq)
  have c2: "column spec_engine (PyStr ''x'') [?l] = (Inr (PyExpression 1), [?l, ?l])"
    by (simp add: spec_column_eq)
  have "(\<exists>e. Inr (PyExpression 0) = Inl e \<and> Inr (PyExpression 1) = Inl e
            \<and> Inr (PyExpression 0) = Inl (e :: error) \<and> [?l, ?l] = [] \<and> [?l] = [])
        \<or> (\<exists>h1 h2 h3. Inr (PyExpression 0) = (Inr h1 :: error + pyval)
              \<and> Inr (PyExpression 1) = (Inr h2 :: error + pyval)
              \<and> Inr (PyExpression 0) = (Inr h3 :: error + pyval)
              \<and> h1 \<noteq> h2 \<and> structurally_equal [?l, ?l] h1 h2
              \<and> leaf_at [?l] h3 = leaf_at [?l] h1)"
    using column_and_literal_pure [of "column spec_engine" "PyStr ''x''", OF _ c1 c2 c1]
    by blast
  then have "PyExpression 0 \<noteq> PyExpression 1
      \<and> structurally_equal [?l, ?l] (PyExpression 0) (PyExpression 1)"
    by auto
  with c1 c2 show ?thesis by blast
qed

section \<open>Properties of \<^verbatim>\<open>column\<close>\<close>

text \<open>
  C4: for every name, \<^verbatim>\<open>column(name)\<close> is \<^verbatim>\<open>Expression.column(name)\<close>: the same
  result or the same exception, and the same effect on the world, whatever the entry
  points are. Nothing is coerced (the coercion entry point and \<^verbatim>\<open>Expression.literal\<close>
  may be replaced by anything without changing the outcome), and an exception comes out of
  \<^verbatim>\<open>column\<close> only when \<^verbatim>\<open>Expression.column\<close> raised it. With the entry point of the
  specification, the result is a new leaf tagged "column" that holds the name.
\<close>

theorem column_is_Expression_column:
  "column E name w = Expression_column E name w
   \<and> column (E\<lparr>pa_scalar := f, Expression_literal := g\<rparr>) name w = column E name w
   \<and> (fst (column E name w) = Inl e \<longleftrightarrow> fst (Expression_column E name w) = Inl e)
   \<and> column spec_engine name st
       = (Inr (PyExpression (length st)), st @ [Expression_Leaf Column_tag name])"
  by (simp add: column_def spec_engine_def alloc_leaf_def)

theorem column_is_Expression_column_witness:
  "column spec_engine (PyStr ''age'') [] = Expression_column spec_engine (PyStr ''age'') []
   \<and> column spec_engine (PyStr ''age'') []
       = (Inr (PyExpression 0), [Expression_Leaf Column_tag (PyStr ''age'')])"
proof -
  note t = column_is_Expression_column
    [where E = spec_engine and name = "PyStr ''age''" and w = "[]" and st = "[]"
       and f = spec_scalar and g = "alloc_leaf Literal_tag" and e = UnsupportedValueType]
  from t have "column spec_engine (PyStr ''age'') [] = Expression_column spec_engine (PyStr ''age'') []"
    by blast
  moreover from t have "column spec_engine (PyStr ''age'') []
       = (Inr (PyExpression (length ([] :: leaf_store))), [] @ [Expression_Leaf Column_tag (PyStr ''age'')])"
    by blast
  then have "column spec_engine (PyStr ''age'') []
       = (Inr (PyExpression 0), [Expression_Leaf Column_tag (PyStr ''age'')])"
    by simp
  ultimately show ?thesis by blast
qed

text \<open>
  C10: \<^verbatim>\<open>column\<close> does not check that its argument is a string. For every value
  whatever, a string, a number, \<^verbatim>\<open>None\<close> or any object, and for every
  \<^verbatim>\<open>Expression.column\<close>, \<^verbatim>\<open>column(v)\<close> is \<^verbatim>\<open>Expression.column(v)\<close> on \<open>v\<close> itself: the
  outcome is the one the entry point gives on that very value, nothing is tested or
  converted locally, and an exception comes out only when the entry point raised it.
\<close>

theorem column_has_no_type_check:
  "column E v w = Expression_column E v w
   \<and> column (E\<lparr>Expression_column := g\<rparr>) v w = g v w
   \<and> (fst (column E v w) = Inl e \<longleftrightarrow> fst (Expression_column E v w) = Inl e)"
  by (simp add: column_def)

theorem column_has_no_type_check_witness:
  "column
     (spec_engine\<lparr>Expression_column :=
        (\<lambda>v st. if isinstance v ''str'' then alloc_leaf Column_tag v st
                 else (Inl (EngineError ''TypeError''), st))\<rparr>)
     (PyInt 7) []
     = (Inl (EngineError ''TypeError''), [])
   \<and> column
     (spec_engine\<lparr>Expression_column :=
        (\<lambda>v st. if isinstance v ''str'' then alloc_leaf Column_tag v st
                 else (Inl (EngineError ''TypeError''), st))\<rparr>)
     (PyStr ''age'') []
     = (Inr (PyExpression 0), [Expression_Leaf Column_tag (PyStr ''age'')])
   \<and> column spec_engine PyNone [] = Expression_column spec_engine PyNone []
   \<and> column spec_engine (PyOther [''Foo'', ''object'']) []
     = Expression_column spec_engine (PyOther [''Foo'', ''object'']) []"
proof -
  let ?g = "\<lambda>v st. if isinstance v ''str'' then alloc_leaf Column_tag v st
                 else (Inl (EngineError ''TypeError''), st :: leaf_store)"
  note t = column_has_no_type_check [where e = UnsupportedValueType]
  from t [of spec_engine "PyInt 7" "[]" ?g]
  have "column (spec_engine\<lparr>Expression_column := ?g\<rparr>) (PyInt 7) [] = ?g (PyInt 7) []"
    by blast
  then have a: "column (spec_engine\<lparr>Expression_column := ?g\<rparr>) (PyInt 7) []
      = (Inl (EngineError ''TypeError''), [])"
    by (simp add: isinstance_def)
  from t [of spec_engine "PyStr ''age''" "[]" ?g]
  have "column (spec_engine\<lparr>Expression_column := ?g\<rparr>) (PyStr ''age'') []
      = ?g (PyStr ''age'') []"
    by blast
  then have b: "column (spec_engine\<lparr>Expression_column := ?g\<rparr>) (PyStr ''age'') []
      = (Inr (PyExpression 0), [Expression_Leaf Column_tag (PyStr ''age'')])"
    by (simp add: isinstance_def alloc_leaf_def)
  from t [of spec_engine PyNone "[]" ?g]
  have c: "column spec_engine PyNone [] = Expression_column spec_engine PyNone []"
    by blast
  from t [of spec_engine "PyOther [''Foo'', ''object'']" "[]" ?g]
  have d: "column spec_engine (PyOther [''Foo'', ''object'']) []
     = Expression_column spec_engine (PyOther [''Foo'', ''object'']) []"
    by blast
  from a b c d show ?thesis by blast
qed

end
